theory Spec2Isabelle
  imports Main
begin

section \<open>Go and cgo primitives used by lib.go\<close>

text \<open>
  A Go \<^verbatim>\<open>string\<close> is a sequence of bytes, and so is an Isabelle \<^typ>\<open>string\<close>.
  A \<^verbatim>\<open>*C.char\<close> is either NULL or points to bytes in C memory; it is modelled by the
  bytes found from the pointer on. \<^verbatim>\<open>uint\<close>, \<^verbatim>\<open>C.size_t\<close> and \<^verbatim>\<open>Window\<close> are 64 bits
  wide on every target of the cgo header (x64 and arm64), the conversions between them are
  the identity, and no arithmetic is done on them: they are natural numbers here.
\<close>

type_synonym cptr = "string option"

definition NUL :: char where
  "NUL = CHR 0x00"

text \<open>\<^verbatim>\<open>C.CString\<close>: a fresh C copy of all the bytes of the Go string, then a terminator.\<close>

definition CString :: "string \<Rightarrow> cptr" where
  "CString s = Some (s @ [NUL])"

text \<open>\<^verbatim>\<open>C.GoString\<close>: the bytes before the first NUL byte; the empty string for NULL.\<close>

definition GoString :: "cptr \<Rightarrow> string" where
  "GoString p = (case p of None \<Rightarrow> [] | Some m \<Rightarrow> takeWhile (\<lambda>c. c \<noteq> NUL) m)"

text \<open>
  A run-time panic or fatal error of the Go code is a value: \<open>Inl\<close> of its kind. \<open>Inr\<close> is a
  normal return.
\<close>

datatype panic =
    NilFuncCall     \<comment> \<open>call of a nil function value\<close>
  | NilMapAssign    \<comment> \<open>assignment to an entry in a nil map\<close>
  | IndexRange      \<comment> \<open>index out of range\<close>
  | SliceBounds     \<comment> \<open>slice bounds out of range\<close>
  | MakeSliceLen    \<comment> \<open>makeslice: len out of range\<close>
  | OutOfMemory     \<comment> \<open>fatal error: out of memory (ends the program, not recoverable)\<close>

text \<open>Go \<^verbatim>\<open>error\<close> values that lib.go creates or receives.\<close>

datatype num_err = ErrSyntax | ErrRange

datatype error =
    ErrorString string               \<comment> \<open>\<^verbatim>\<open>errors.New\<close>\<close>
  | NumError string string num_err   \<comment> \<open>\<^verbatim>\<open>strconv.NumError{Func, Num, Err}\<close>\<close>
  | MarshalError string              \<comment> \<open>an error of \<^verbatim>\<open>json.Marshal\<close>\<close>

text \<open>\<^verbatim>\<open>log.Println(msg, err)\<close> appends one line to the log.\<close>

datatype log_line = Println string error

section \<open>Data model\<close>

record Event =
  Window :: nat
  EventType :: nat
  Element :: string
  Data :: string

record ScriptOptions =
  Timeout :: nat
  BufferSize :: nat

text \<open>
  A callback is a \<^verbatim>\<open>func(Event) any\<close>: its result is \<open>None\<close> for the nil interface and
  \<open>Some v\<close> otherwise. A function value may itself be nil (\<open>None\<close>). A callback is
  modelled by the value it returns for an event: one that panics, does not return or
  itself calls \<^verbatim>\<open>Bind\<close> is outside this model.
\<close>

type_synonym 'v callback = "Event \<Rightarrow> 'v option"

text \<open>\<^verbatim>\<open>var funcList = make(map[Window]map[uint]func(Event) any)\<close>\<close>

type_synonym 'v funcList = "nat \<rightharpoonup> (nat \<rightharpoonup> 'v callback option)"

definition funcList_init :: "'v funcList" where
  "funcList_init = Map.empty"

text \<open>
  The expression \<^verbatim>\<open>funcList[w][funcId]\<close>: a missing window gives the nil inner map, and
  a lookup in a nil map or of a missing key gives the zero value, the nil function.
\<close>

definition funcList_at :: "'v funcList \<Rightarrow> nat \<Rightarrow> nat \<Rightarrow> 'v callback option" where
  "funcList_at fl w funcId =
     (case fl w of
        None \<Rightarrow> None
      | Some m \<Rightarrow> (case m funcId of None \<Rightarrow> None | Some f \<Rightarrow> f))"

section \<open>Window creation and binding\<close>

text \<open>
  \<^verbatim>\<open>NewWindow\<close>: the engine's \<^verbatim>\<open>webui_new_window()\<close> answers with a window number, and the
  window gets a fresh, empty inner map.
\<close>

definition NewWindow :: "nat \<Rightarrow> 'v funcList \<Rightarrow> nat \<times> 'v funcList" where
  "NewWindow webui_new_window fl =
     (let w = webui_new_window in (w, fl(w \<mapsto> Map.empty)))"

text \<open>
  \<^verbatim>\<open>Window.Bind\<close>: the engine's \<^verbatim>\<open>go_webui_bind\<close> answers with a number, which is taken as
  the function id whatever it is; the assignment \<^verbatim>\<open>funcList[w][funcId] = callback\<close> panics
  when the inner map of \<open>w\<close> is nil. \<^verbatim>\<open>Bind\<close> has no result.
\<close>

definition Bind ::
  "(nat \<Rightarrow> cptr \<Rightarrow> nat) \<Rightarrow> 'v funcList \<Rightarrow> nat \<Rightarrow> string \<Rightarrow> 'v callback option
     \<Rightarrow> panic + 'v funcList" where
  "Bind go_webui_bind fl w element callback =
     (let funcId = go_webui_bind w (CString element)
      in case fl w of
           None \<Rightarrow> Inl NilMapAssign
         | Some m \<Rightarrow> Inr (fl(w \<mapsto> m(funcId \<mapsto> callback))))"

section \<open>Event dispatch\<close>

text \<open>
  What one run of \<^verbatim>\<open>goWebuiEvent\<close> does to the outside: the lines it logs and its calls of
  \<^verbatim>\<open>webui_interface_set_response(window, event_number, text)\<close>.
\<close>

record effects =
  logged :: "log_line list"
  responses :: "(nat \<times> nat \<times> cptr) list"

text \<open>
  \<^verbatim>\<open>goWebuiEvent\<close>. The engine's \<^verbatim>\<open>webui_interface_get_bind_id\<close> and Go's \<^verbatim>\<open>json.Marshal\<close>
  are parameters; \<^verbatim>\<open>json.Marshal\<close> returns the bytes and the error, and the code uses the
  bytes whatever the error is.
\<close>

definition goWebuiEvent ::
  "(nat \<Rightarrow> cptr \<Rightarrow> nat) \<Rightarrow> ('v \<Rightarrow> string \<times> error option) \<Rightarrow> 'v funcList
     \<Rightarrow> nat \<Rightarrow> nat \<Rightarrow> cptr \<Rightarrow> cptr \<Rightarrow> nat \<Rightarrow> panic + effects" where
  "goWebuiEvent webui_interface_get_bind_id json_Marshal fl window event_type element data
       event_number =
     (let e = \<lparr>Window = window, EventType = event_type,
                Element = GoString element, Data = GoString data\<rparr>;
          funcId = webui_interface_get_bind_id window element
      in case funcList_at fl window funcId of
           None \<Rightarrow> Inl NilFuncCall
         | Some f \<Rightarrow>
             (case f e of
                None \<Rightarrow> Inr \<lparr>logged = [], responses = []\<rparr>
              | Some result \<Rightarrow>
                  (let (jsonRes, err) = json_Marshal result;
                       lines = (case err of
                                  None \<Rightarrow> []
                                | Some er \<Rightarrow> [Println ''Failed encoding JS result into JSON'' er])
                   in Inr \<lparr>logged = lines,
                           responses = [(window, event_number, CString jsonRes)]\<rparr>)))"

section \<open>Runs of binding calls\<close>

text \<open>
  A program's calls of \<^verbatim>\<open>NewWindow\<close> and \<^verbatim>\<open>Bind\<close>, run in order on the registry; a panic
  ends the run. \<open>CallNewWindow w\<close> is a call of \<^verbatim>\<open>NewWindow\<close> to which the engine answers \<open>w\<close>.
\<close>

datatype 'v call = CallNewWindow nat | CallBind nat string "'v callback option"

fun run_calls ::
  "(nat \<Rightarrow> cptr \<Rightarrow> nat) \<Rightarrow> 'v call list \<Rightarrow> 'v funcList \<Rightarrow> panic + 'v funcList" where
  "run_calls go_webui_bind [] fl = Inr fl"
| "run_calls go_webui_bind (CallNewWindow w # cs) fl =
     run_calls go_webui_bind cs (snd (NewWindow w fl))"
| "run_calls go_webui_bind (CallBind w element callback # cs) fl =
     (case Bind go_webui_bind fl w element callback of
        Inl p \<Rightarrow> Inl p
      | Inr fl' \<Rightarrow> run_calls go_webui_bind cs fl')"

fun returned_by_NewWindow :: "'v call list \<Rightarrow> nat set" where
  "returned_by_NewWindow [] = {}"
| "returned_by_NewWindow (CallNewWindow w # cs) = insert w (returned_by_NewWindow cs)"
| "returned_by_NewWindow (CallBind w element callback # cs) = returned_by_NewWindow cs"

section \<open>Running a script\<close>

text \<open>\<^verbatim>\<open>bytes.IndexByte(b, c)\<close>: the index of the first \<open>c\<close> in \<open>b\<close>, or -1 when there is none.\<close>

fun IndexByte :: "string \<Rightarrow> char \<Rightarrow> int" where
  "IndexByte [] c = - 1"
| "IndexByte (x # xs) c =
     (if x = c then 0 else (let i = IndexByte xs c in if i < 0 then - 1 else i + 1))"

text \<open>
  \<^verbatim>\<open>make([]byte, n)\<close> for a length \<open>n\<close> of type \<^verbatim>\<open>uint64\<close>. The runtime panics with
  \<^verbatim>\<open>makeslice: len out of range\<close> when the length does not fit an \<^verbatim>\<open>int\<close> (it is \<open>2\<^sup>6\<^sup>3\<close> or
  more) or exceeds \<^verbatim>\<open>runtime.maxAlloc\<close>, which is \<open>2\<^sup>4\<^sup>8\<close> on the 64-bit targets of the cgo
  header. Below that the bytes must come from the heap: \<open>heap\<close> is the number of bytes the
  heap can still give, and when it cannot give \<open>n\<close> the program dies with
  \<^verbatim>\<open>fatal error: out of memory\<close>. The new bytes are all zero.
\<close>

definition maxAlloc :: nat where
  "maxAlloc = 2 ^ 48"

definition make_bytes :: "nat \<Rightarrow> nat \<Rightarrow> panic + string" where
  "make_bytes heap n =
     (if 2 ^ 63 \<le> n \<or> maxAlloc < n then Inl MakeSliceLen
      else if heap < n then Inl OutOfMemory
      else Inr (replicate n NUL))"

text \<open>
  \<^verbatim>\<open>Window.Script\<close>. The engine's \<^verbatim>\<open>webui_script(window, script, timeout, buffer, length)\<close>
  is a parameter: given the buffer as Go allocated it (all zero), it answers with its
  \<^verbatim>\<open>bool\<close> and the bytes of the buffer after the call. The engine is called only after
  \<^verbatim>\<open>make\<close> has returned the buffer. \<^verbatim>\<open>&buffer[0]\<close> panics on an empty buffer and
  \<^verbatim>\<open>buffer[:respLen]\<close> panics when \<open>respLen\<close> is -1. The result is the pair \<^verbatim>\<open>(resp, err)\<close>.
\<close>

definition Script ::
  "nat \<Rightarrow> (nat \<Rightarrow> cptr \<Rightarrow> nat \<Rightarrow> string \<Rightarrow> nat \<Rightarrow> bool \<times> string) \<Rightarrow> nat \<Rightarrow> string
     \<Rightarrow> ScriptOptions \<Rightarrow> panic + (string \<times> error option)" where
  "Script heap webui_script w script options =
     (let opts = \<lparr>Timeout = Timeout options, BufferSize = BufferSize options\<rparr>;
          opts = (if BufferSize options = 0 then opts\<lparr>BufferSize := 1024 * 8\<rparr> else opts)
      in case make_bytes heap (BufferSize opts) of
           Inl p \<Rightarrow> Inl p
         | Inr buffer \<Rightarrow>
             if buffer = [] then Inl IndexRange
             else
               (let (ok, buffer) =
                      webui_script w (CString script) (Timeout opts) buffer (BufferSize opts);
                    err = (if \<not> ok then Some (ErrorString ''Failed running JavaScript.'')
                           else None);
                    respLen = IndexByte buffer NUL
                in if respLen < 0 \<or> int (length buffer) < respLen then Inl SliceBounds
                   else Inr (take (nat respLen) buffer, err)))"

text \<open>
  Modelled from the spec: the engine's \<^verbatim>\<open>run_script\<close>, which is not part of the Go source.
  "The engine writes UTF-8 text into the buffer, truncated to capacity, terminated by a
  sentinel byte", the "response text is truncated to at most \<^verbatim>\<open>bufferCapacity - 1\<close> bytes and
  terminated by a sentinel (null) byte written by the engine", and the engine reports
  success or failure. \<open>ok\<close> and \<open>response\<close> are what the engine has to report for the call.
  The bytes are written over the start of the buffer the engine was handed: what lies
  behind them stays, and nothing is kept of bytes written past the buffer's end.
\<close>

definition engine_run_script ::
  "bool \<Rightarrow> string \<Rightarrow> nat \<Rightarrow> cptr \<Rightarrow> nat \<Rightarrow> string \<Rightarrow> nat \<Rightarrow> bool \<times> string" where
  "engine_run_script ok response w script timeout buffer buffer_length =
     (if buffer_length = 0 then (ok, buffer)
      else (let written = take (buffer_length - 1) response @ [NUL]
            in (ok, take (length buffer) written @ drop (length written) buffer)))"

section \<open>Encoding and decoding text\<close>

text \<open>
  \<^verbatim>\<open>Encode\<close> and \<^verbatim>\<open>Decode\<close>: the engine's \<^verbatim>\<open>webui_encode\<close> and \<^verbatim>\<open>webui_decode\<close> are parameters,
  C functions from a \<^verbatim>\<open>char*\<close> to a \<^verbatim>\<open>char*\<close>.
\<close>

definition Encode :: "(cptr \<Rightarrow> cptr) \<Rightarrow> string \<Rightarrow> string" where
  "Encode webui_encode str = GoString (webui_encode (CString str))"

definition Decode :: "(cptr \<Rightarrow> cptr) \<Rightarrow> string \<Rightarrow> string" where
  "Decode webui_decode str = GoString (webui_decode (CString str))"

text \<open>
  Modelled from the spec: the engine's \<^verbatim>\<open>encode(text) -> text\<close> and \<^verbatim>\<open>decode(text) -> text\<close>,
  which are not part of the Go source. Such a C function reads the NUL-terminated text at
  its argument and returns a fresh NUL-terminated text; \<open>f\<close> is what it computes on texts.
  That the two are "inverse, lossless transforms" is a hypothesis where it is needed.
\<close>

definition engine_text_function :: "(string \<Rightarrow> string) \<Rightarrow> cptr \<Rightarrow> cptr" where
  "engine_text_function f p = CString (f (GoString p))"

section \<open>Go's strconv, as lib.go calls it\<close>









section \<open>Typed access to the event payload\<close>






section \<open>Sample engine and values for the concrete evaluations\<close>

text \<open>An engine that knows two bound elements per window.\<close>

definition sample_bind_id :: "nat \<Rightarrow> cptr \<Rightarrow> nat" where
  "sample_bind_id w element =
     (if GoString element = ''submit'' then 4 else if GoString element = ''cancel'' then 5 else 0)"

text \<open>
  Two kinds of Go values and what \<^verbatim>\<open>json.Marshal\<close> does on them: a bool is encoded, a
  channel is an unsupported type (no bytes, and an error).
\<close>

datatype go_value = BoolValue bool | ChanValue

definition sample_Marshal :: "go_value \<Rightarrow> string \<times> error option" where
  "sample_Marshal v =
     (case v of
        BoolValue b \<Rightarrow> (if b then ''true'' else ''false'', None)
      | ChanValue \<Rightarrow> ([], Some (MarshalError ''json: unsupported type: chan int'')))"

definition echo_callback :: "go_value callback" where
  "echo_callback e = (if Data e = ''chan'' then Some ChanValue
                      else if Data e = '''' then None
                      else Some (BoolValue (Data e = ''yes'')))"

definition sample_funcList :: "go_value funcList" where
  "sample_funcList = [3 \<mapsto> [4 \<mapsto> Some echo_callback]]"

section \<open>Dispatch: unregistered callbacks\<close>

text \<open>
  C1, as stated, fails: a dispatch for an unregistered pair does not return. On the
  initial registry the call of the nil function value panics.
\<close>

theorem dispatch_unregistered_counterexample:
  "goWebuiEvent sample_bind_id sample_Marshal funcList_init 3 6 (CString ''submit'')
     (CString ''yes'') 7 = Inl NilFuncCall"
  by (simp add: goWebuiEvent_def funcList_init_def funcList_at_def)

text \<open>
  C1, amended: for every dispatch with a (window, functionId) pair for which no callback
  is registered, nothing is logged and no response is sent: the call of the nil function
  value panics, and \<^verbatim>\<open>goWebuiEvent\<close> does not recover the panic. The equivalence also gives
  the converse: the dispatcher panics this way only for an unregistered pair.
\<close>

theorem dispatch_unregistered_panics:
  "(goWebuiEvent get_bind_id json_Marshal fl window event_type element data event_number
      = Inl NilFuncCall)
   = (funcList_at fl window (get_bind_id window element) = None)"
  by (simp add: goWebuiEvent_def Let_def split: option.splits prod.splits)

section \<open>Dispatch: registered callbacks\<close>

text \<open>
  C2: for every dispatch of a registered callback the dispatcher returns; if the callback
  returns nil, no response is written to the engine; if it returns a value \<open>v\<close>, exactly
  one response is written, the C copy of the bytes \<^verbatim>\<open>json.Marshal\<close> gives for \<open>v\<close>, tagged
  with the window and the event number of the dispatch.
\<close>

theorem dispatch_registered_response:
  assumes "funcList_at fl window (get_bind_id window element) = Some f"
    and "e = \<lparr>Window = window, EventType = event_type,
               Element = GoString element, Data = GoString data\<rparr>"
  shows "\<exists>eff. goWebuiEvent get_bind_id json_Marshal fl window event_type element data
                 event_number = Inr eff
           \<and> responses eff =
               (case f e of
                  None \<Rightarrow> []
                | Some v \<Rightarrow> [(window, event_number, CString (fst (json_Marshal v)))])"
  using assms
  by (simp add: goWebuiEvent_def Let_def split: option.splits prod.splits)

theorem dispatch_registered_response_witness:
  "funcList_at sample_funcList 3 (sample_bind_id 3 (CString ''submit'')) = Some echo_callback
   \<and> (\<exists>eff. goWebuiEvent sample_bind_id sample_Marshal sample_funcList 3 6
               (CString ''submit'') (CString ''yes'') 7 = Inr eff
          \<and> responses eff = [(3, 7, CString ''true'')])
   \<and> (\<exists>eff. goWebuiEvent sample_bind_id sample_Marshal sample_funcList 3 6
               (CString ''submit'') (CString []) 8 = Inr eff
          \<and> responses eff = [])"
proof -
  have reg: "funcList_at sample_funcList 3 (sample_bind_id 3 (CString ''submit''))
               = Some echo_callback"
    by (simp add: funcList_at_def sample_funcList_def sample_bind_id_def GoString_def
        CString_def NUL_def)
  have yes: "echo_callback \<lparr>Window = 3, EventType = 6, Element = GoString (CString ''submit''),
               Data = GoString (CString ''yes'')\<rparr> = Some (BoolValue True)"
    by (simp add: echo_callback_def GoString_def CString_def NUL_def)
  have nil: "echo_callback \<lparr>Window = 3, EventType = 6, Element = GoString (CString ''submit''),
               Data = GoString (CString [])\<rparr> = None"
    by (simp add: echo_callback_def GoString_def CString_def NUL_def)
  from dispatch_registered_response [where get_bind_id = sample_bind_id
      and fl = sample_funcList and window = 3 and element = "CString ''submit''"
      and f = echo_callback and event_type = 6 and data = "CString ''yes''"
      and json_Marshal = sample_Marshal and event_number = 7, OF reg refl]
    dispatch_registered_response [where get_bind_id = sample_bind_id
      and fl = sample_funcList and window = 3 and element = "CString ''submit''"
      and f = echo_callback and event_type = 6 and data = "CString []"
      and json_Marshal = sample_Marshal and event_number = 8, OF reg refl]
  show ?thesis
    by (simp add: reg yes nil sample_Marshal_def)
qed

text \<open>
  C3: for every dispatch where \<^verbatim>\<open>json.Marshal\<close> fails on the callback's non-nil result, the
  failure is logged, the dispatcher returns without a panic, and a response holding the
  bytes \<^verbatim>\<open>json.Marshal\<close> returned with the error (possibly none) is still sent to the engine
  for that event number.
\<close>

theorem dispatch_marshal_failure:
  assumes "funcList_at fl window (get_bind_id window element) = Some f"
    and "f \<lparr>Window = window, EventType = event_type,
            Element = GoString element, Data = GoString data\<rparr> = Some v"
    and "json_Marshal v = (jsonRes, Some er)"
  shows "goWebuiEvent get_bind_id json_Marshal fl window event_type element data event_number
           = Inr \<lparr>logged = [Println ''Failed encoding JS result into JSON'' er],
                  responses = [(window, event_number, CString jsonRes)]\<rparr>"
  using assms by (simp add: goWebuiEvent_def)

theorem dispatch_marshal_failure_witness:
  "funcList_at sample_funcList 3 (sample_bind_id 3 (CString ''submit'')) = Some echo_callback
   \<and> sample_Marshal ChanValue = ([], Some (MarshalError ''json: unsupported type: chan int''))
   \<and> goWebuiEvent sample_bind_id sample_Marshal sample_funcList 3 6
        (CString ''submit'') (CString ''chan'') 9
      = Inr \<lparr>logged = [Println ''Failed encoding JS result into JSON''
                          (MarshalError ''json: unsupported type: chan int'')],
             responses = [(3, 9, CString [])]\<rparr>"
proof -
  have reg: "funcList_at sample_funcList 3 (sample_bind_id 3 (CString ''submit''))
               = Some echo_callback"
    by (simp add: funcList_at_def sample_funcList_def sample_bind_id_def GoString_def
        CString_def NUL_def)
  have res: "echo_callback \<lparr>Window = 3, EventType = 6, Element = GoString (CString ''submit''),
               Data = GoString (CString ''chan'')\<rparr> = Some ChanValue"
    by (simp add: echo_callback_def GoString_def CString_def NUL_def)
  have mar: "sample_Marshal ChanValue
               = ([], Some (MarshalError ''json: unsupported type: chan int''))"
    by (simp add: sample_Marshal_def)
  from dispatch_marshal_failure [where get_bind_id = sample_bind_id
      and fl = sample_funcList and window = 3 and element = "CString ''submit''"
      and f = echo_callback and event_type = 6 and data = "CString ''chan''"
      and json_Marshal = sample_Marshal and event_number = 9, OF reg res mar] reg mar
  show ?thesis by simp
qed

section \<open>Binding: properties\<close>

lemma Bind_panics_iff: "(Bind b fl w element callback = Inl NilMapAssign) = (fl w = None)"
  by (simp add: Bind_def split: option.splits)

lemma Bind_returns_iff: "(\<exists>fl'. Bind b fl w element callback = Inr fl') = (fl w \<noteq> None)"
  by (simp add: Bind_def split: option.splits)

lemma Bind_dom: "Bind b fl w element callback = Inr fl' \<Longrightarrow> dom fl' = dom fl"
  by (auto simp: Bind_def split: option.splits if_splits)

lemma NewWindow_dom: "dom (snd (NewWindow w fl)) = insert w (dom fl)"
  by (simp add: NewWindow_def)

lemma run_calls_dom:
  "run_calls b cs fl = Inr fl' \<Longrightarrow> dom fl' = dom fl \<union> returned_by_NewWindow cs"
proof (induction cs arbitrary: fl)
  case Nil
  then show ?case by simp
next
  case (Cons c cs)
  show ?case
  proof (cases c)
    case (CallNewWindow w)
    with Cons.prems have "run_calls b cs (snd (NewWindow w fl)) = Inr fl'"
      by simp
    from Cons.IH [OF this] CallNewWindow show ?thesis
      by (simp add: NewWindow_dom)
  next
    case (CallBind w element callback)
    with Cons.prems obtain fl1 where
      b: "Bind b fl w element callback = Inr fl1" and r: "run_calls b cs fl1 = Inr fl'"
      by (auto split: sum.splits)
    from Cons.IH [OF r] Bind_dom [OF b] CallBind show ?thesis
      by simp
  qed
qed

text \<open>
  C4, as stated, fails. On a window that \<^verbatim>\<open>NewWindow\<close> never returned \<^verbatim>\<open>Bind\<close> fails (it
  panics) although the engine accepted the request with id 4; and for an element the engine
  answers with 0, \<^verbatim>\<open>Bind\<close> reports nothing and stores the callback under id 0.
\<close>

theorem Bind_error_counterexample:
  "sample_bind_id 3 (CString ''submit'') = 4
   \<and> Bind sample_bind_id funcList_init 3 ''submit'' (Some echo_callback) = Inl NilMapAssign
   \<and> sample_bind_id 3 (CString ''closed'') = 0
   \<and> (\<exists>fl'. Bind sample_bind_id sample_funcList 3 ''closed'' (Some echo_callback) = Inr fl'
          \<and> funcList_at fl' 3 0 = Some echo_callback)"
  by (simp add: Bind_def funcList_init_def sample_funcList_def sample_bind_id_def
      funcList_at_def GoString_def CString_def NUL_def)

text \<open>
  C4, amended: \<^verbatim>\<open>Bind\<close> never surfaces a rejection of the engine. It has no result and takes
  whatever number the engine answers as the function id: when the window has an inner map
  in the registry, the callback is stored under that id and every other entry is as
  before. The only failure of \<^verbatim>\<open>Bind\<close> is a panic, exactly when the window has no inner map,
  whatever the engine answers.
\<close>

theorem Bind_outcome:
  "((Bind go_webui_bind fl w element callback = Inl NilMapAssign) = (fl w = None))
   \<and> (fl w \<noteq> None \<longrightarrow>
        (\<exists>fl'. Bind go_webui_bind fl w element callback = Inr fl'
           \<and> funcList_at fl' w (go_webui_bind w (CString element)) = callback
           \<and> (\<forall>w' i. (w', i) \<noteq> (w, go_webui_bind w (CString element))
                 \<longrightarrow> funcList_at fl' w' i = funcList_at fl w' i)))"
  by (auto simp: Bind_def funcList_at_def split: option.splits)

theorem Bind_outcome_witness:
  "sample_funcList 3 \<noteq> None
   \<and> (\<exists>fl'. Bind sample_bind_id sample_funcList 3 ''cancel'' None = Inr fl'
          \<and> funcList_at fl' 3 5 = None
          \<and> funcList_at fl' 3 4 = Some echo_callback)"
proof -
  have a: "sample_funcList 3 \<noteq> None"
    by (simp add: sample_funcList_def)
  have i: "sample_bind_id 3 (CString ''cancel'') = 5"
    by (simp add: sample_bind_id_def GoString_def CString_def NUL_def)
  have o: "funcList_at sample_funcList 3 4 = Some echo_callback"
    by (simp add: funcList_at_def sample_funcList_def)
  from Bind_outcome [of sample_bind_id sample_funcList 3 "''cancel''" None] a
  obtain fl' where
    r: "Bind sample_bind_id sample_funcList 3 ''cancel'' None = Inr fl'"
    and s: "funcList_at fl' 3 (sample_bind_id 3 (CString ''cancel'')) = None"
    and f: "\<forall>w' i. (w', i) \<noteq> (3, sample_bind_id 3 (CString ''cancel''))
               \<longrightarrow> funcList_at fl' w' i = funcList_at sample_funcList w' i"
    by blast
  from f i have "funcList_at fl' 3 4 = funcList_at sample_funcList 3 4"
    by simp
  with r s i o a show ?thesis
    by simp
qed

text \<open>
  C10: \<^verbatim>\<open>NewWindow\<close> gives the window it returns a non-nil, empty inner map. After any calls
  of \<^verbatim>\<open>NewWindow\<close> and \<^verbatim>\<open>Bind\<close> from the initial registry, \<^verbatim>\<open>Bind\<close> on \<open>w\<close> returns without a
  panic only when \<open>w\<close> was returned by an earlier \<^verbatim>\<open>NewWindow\<close>, and on a window that
  \<^verbatim>\<open>NewWindow\<close> never returned it panics on the assignment to a nil map.
\<close>

theorem Bind_needs_NewWindow:
  assumes "run_calls go_webui_bind cs funcList_init = Inr fl"
  shows "((\<exists>fl'. Bind go_webui_bind fl w element callback = Inr fl')
            = (w \<in> returned_by_NewWindow cs))
       \<and> ((Bind go_webui_bind fl w element callback = Inl NilMapAssign)
            = (w \<notin> returned_by_NewWindow cs))
       \<and> fst (NewWindow w fl) = w
       \<and> snd (NewWindow w fl) w = Some Map.empty"
proof -
  from run_calls_dom [OF assms] have d: "dom fl = returned_by_NewWindow cs"
    by (simp add: funcList_init_def)
  have "(fl w = None) = (w \<notin> dom fl)"
    by (simp add: domIff)
  with d have n: "(fl w = None) = (w \<notin> returned_by_NewWindow cs)"
    by simp
  have "(\<exists>fl'. Bind go_webui_bind fl w element callback = Inr fl')
          = (w \<in> returned_by_NewWindow cs)"
    using n by (simp add: Bind_returns_iff)
  moreover have "(Bind go_webui_bind fl w element callback = Inl NilMapAssign)
          = (w \<notin> returned_by_NewWindow cs)"
    using n by (simp add: Bind_panics_iff)
  ultimately show ?thesis
    by (simp add: NewWindow_def)
qed

theorem Bind_needs_NewWindow_witness:
  "(\<exists>fl. run_calls sample_bind_id
            [CallNewWindow 3, CallBind 3 ''submit'' (Some echo_callback)] funcList_init = Inr fl
      \<and> (\<exists>fl'. Bind sample_bind_id fl 3 ''cancel'' (Some echo_callback) = Inr fl')
      \<and> Bind sample_bind_id fl 7 ''cancel'' (Some echo_callback) = Inl NilMapAssign)"
proof -
  obtain fl where r: "run_calls sample_bind_id
      [CallNewWindow 3, CallBind 3 ''submit'' (Some echo_callback)] funcList_init = Inr fl"
    by (simp add: NewWindow_def Bind_def funcList_init_def)
  from Bind_needs_NewWindow [OF r, of 3 "''cancel''" "Some echo_callback"]
    Bind_needs_NewWindow [OF r, of 7 "''cancel''" "Some echo_callback"] r
  show ?thesis
    by simp
qed

section \<open>Running a script: properties\<close>

lemma IndexByte_absent: "c \<notin> set b \<Longrightarrow> IndexByte b c = - 1"
  by (induction b) (auto simp: Let_def)

lemma IndexByte_nonneg: "c \<in> set b \<Longrightarrow> 0 \<le> IndexByte b c"
  by (induction b) (auto simp: Let_def)

lemma IndexByte_present:
  "c \<in> set b \<Longrightarrow> IndexByte b c = int (length (takeWhile (\<lambda>x. x \<noteq> c) b))"
proof (induction b)
  case Nil
  then show ?case by simp
next
  case (Cons x xs)
  show ?case
  proof (cases "x = c")
    case True
    then show ?thesis by simp
  next
    case False
    with Cons.prems have m: "c \<in> set xs" by simp
    from Cons.IH [OF m] IndexByte_nonneg [OF m] False show ?thesis
      by (simp add: Let_def)
  qed
qed

lemma slice_to_IndexByte:
  assumes "c \<in> set b"
  shows "take (nat (IndexByte b c)) b = takeWhile (\<lambda>x. x \<noteq> c) b"
proof -
  have "take (length (takeWhile (\<lambda>x. x \<noteq> c) b)) b = takeWhile (\<lambda>x. x \<noteq> c) b"
    by (rule takeWhile_eq_take [symmetric])
  with IndexByte_present [OF assms] show ?thesis by simp
qed

lemma IndexByte_le_length: "IndexByte b c \<le> int (length b)"
proof (cases "c \<in> set b")
  case True
  have "length (takeWhile (\<lambda>x. x \<noteq> c) b) \<le> length b"
    by (rule length_takeWhile_le)
  with IndexByte_present [OF True] show ?thesis by simp
next
  case False
  then show ?thesis by (simp add: IndexByte_absent)
qed

text \<open>The allocation: when it gives the buffer, and when it ends the call.\<close>

lemma make_bytes_gives:
  "n \<le> maxAlloc \<Longrightarrow> n \<le> heap \<Longrightarrow> make_bytes heap n = Inr (replicate n NUL)"
  by (simp add: make_bytes_def maxAlloc_def)

lemma make_bytes_too_long:
  "2 ^ 63 \<le> n \<or> maxAlloc < n \<Longrightarrow> make_bytes heap n = Inl MakeSliceLen"
  by (simp add: make_bytes_def)

text \<open>
  \<^verbatim>\<open>Script\<close> in terms of the capacity it settles on: 8192 for a zero \<^verbatim>\<open>BufferSize\<close>, and
  \<^verbatim>\<open>BufferSize\<close> otherwise.
\<close>

lemma Script_capacity:
  assumes "cap = (if BufferSize options = 0 then 8192 else BufferSize options)"
  shows "Script heap webui_script w script options =
           (case make_bytes heap cap of
              Inl p \<Rightarrow> Inl p
            | Inr buffer \<Rightarrow>
                if buffer = [] then Inl IndexRange
                else
                  (let (ok, buffer) =
                         webui_script w (CString script) (Timeout options) buffer cap;
                       err = (if \<not> ok then Some (ErrorString ''Failed running JavaScript.'')
                              else None);
                       respLen = IndexByte buffer NUL
                   in if respLen < 0 \<or> int (length buffer) < respLen then Inl SliceBounds
                      else Inr (take (nat respLen) buffer, err)))"
proof (cases "BufferSize options = 0")
  case True
  with assms have "cap = 8192" by simp
  with True show ?thesis
    by (simp add: Script_def Let_def split: sum.splits)
next
  case False
  with assms have "cap = BufferSize options" by simp
  with False show ?thesis
    by (simp add: Script_def Let_def split: sum.splits)
qed

lemma Script_make_panics:
  assumes "cap = (if BufferSize options = 0 then 8192 else BufferSize options)"
    and "2 ^ 63 \<le> cap \<or> maxAlloc < cap"
  shows "Script heap webui_script w script options = Inl MakeSliceLen"
  by (simp add: Script_capacity [OF assms(1)] make_bytes_too_long [OF assms(2)])

lemma Script_out_of_memory:
  assumes "cap = (if BufferSize options = 0 then 8192 else BufferSize options)"
    and "cap \<le> maxAlloc" and "heap < cap"
  shows "Script heap webui_script w script options = Inl OutOfMemory"
  using assms(2,3)
  by (simp add: Script_capacity [OF assms(1)] make_bytes_def maxAlloc_def)

text \<open>What \<^verbatim>\<open>Script\<close> does with the engine's answer, for any engine.\<close>

lemma Script_sentinel:
  assumes cap: "cap = (if BufferSize options = 0 then 8192 else BufferSize options)"
    and alloc: "cap \<le> maxAlloc" "cap \<le> heap"
    and eng: "webui_script w (CString script) (Timeout options) (replicate cap NUL) cap
                = (ok, buffer)"
    and nul: "NUL \<in> set buffer"
  shows "Script heap webui_script w script options
           = Inr (takeWhile (\<lambda>c. c \<noteq> NUL) buffer,
                  if ok then None else Some (ErrorString ''Failed running JavaScript.''))"
proof -
  have r: "\<not> IndexByte buffer NUL < 0" "\<not> int (length buffer) < IndexByte buffer NUL"
    using IndexByte_nonneg [OF nul] IndexByte_le_length [of buffer NUL] by simp_all
  from cap have pos: "cap \<noteq> 0"
    by (simp split: if_splits)
  from pos r eng show ?thesis
    by (simp add: Script_capacity [OF cap] make_bytes_gives [OF alloc]
        slice_to_IndexByte [OF nul])
qed

lemma Script_no_sentinel:
  assumes cap: "cap = (if BufferSize options = 0 then 8192 else BufferSize options)"
    and alloc: "cap \<le> maxAlloc" "cap \<le> heap"
    and eng: "webui_script w (CString script) (Timeout options) (replicate cap NUL) cap
                = (ok, buffer)"
    and nul: "NUL \<notin> set buffer"
  shows "Script heap webui_script w script options = Inl SliceBounds"
proof -
  from cap have pos: "cap \<noteq> 0"
    by (simp split: if_splits)
  from pos eng show ?thesis
    by (simp add: Script_capacity [OF cap] make_bytes_gives [OF alloc]
        IndexByte_absent [OF nul])
qed

lemma engine_run_script_buffer:
  assumes "0 < cap" and "length buffer = cap"
  shows "engine_run_script ok response w script timeout buffer cap
           = (ok, take (cap - 1) response @ NUL
                    # drop (Suc (length (take (cap - 1) response))) buffer)"
proof -
  have "length (take (cap - 1) response @ [NUL]) \<le> length buffer"
    using assms by simp
  then have "take (length buffer) (take (cap - 1) response @ [NUL])
               = take (cap - 1) response @ [NUL]"
    by (rule take_all)
  with assms(1) show ?thesis
    by (simp add: engine_run_script_def Let_def)
qed

lemma takeWhile_text_NUL:
  "NUL \<notin> set t \<Longrightarrow> takeWhile (\<lambda>c. c \<noteq> NUL) (t @ NUL # rest) = t"
  by (induction t) auto

text \<open>
  C5: when \<^verbatim>\<open>options.BufferSize\<close> is zero the buffer handed to the engine has 8192 bytes
  (and \<^verbatim>\<open>BufferSize\<close> bytes otherwise), all zero, and the engine is told that capacity;
  whatever the engine answers, the returned text is the content of the buffer up to the
  first null byte; with an engine that writes its response truncated to capacity - 1
  bytes and a sentinel, the text is the response cut to capacity - 1 bytes, so exactly
  capacity - 1 bytes when the response is longer than that. The engine is reached only
  when \<^verbatim>\<open>make\<close> has given the buffer: the capacity is within the runtime's limit and the
  heap's means.
\<close>

theorem Script_buffer_truncation:
  assumes "cap = (if BufferSize options = 0 then 8192 else BufferSize options)"
    and "cap \<le> maxAlloc" and "cap \<le> heap"
    and "NUL \<notin> set response"
  shows "(\<forall>webui_script answer buffer.
            webui_script w (CString script) (Timeout options) (replicate cap NUL) cap
              = (answer, buffer)
            \<longrightarrow> NUL \<in> set buffer
            \<longrightarrow> Script heap webui_script w script options
                  = Inr (takeWhile (\<lambda>c. c \<noteq> NUL) buffer,
                         if answer then None
                         else Some (ErrorString ''Failed running JavaScript.'')))
       \<and> (\<exists>text. Script heap (engine_run_script ok response) w script options
                    = Inr (text, if ok then None
                                 else Some (ErrorString ''Failed running JavaScript.''))
              \<and> text = take (cap - 1) response
              \<and> (cap - 1 < length response \<longrightarrow> length text = cap - 1))"
proof (intro conjI allI impI)
  fix webui_script :: "nat \<Rightarrow> cptr \<Rightarrow> nat \<Rightarrow> string \<Rightarrow> nat \<Rightarrow> bool \<times> string"
    and answer buffer
  assume "webui_script w (CString script) (Timeout options) (replicate cap NUL) cap
            = (answer, buffer)"
    and "NUL \<in> set buffer"
  with assms(1-3) show "Script heap webui_script w script options
      = Inr (takeWhile (\<lambda>c. c \<noteq> NUL) buffer,
             if answer then None else Some (ErrorString ''Failed running JavaScript.''))"
    by (rule Script_sentinel)
next
  from assms(1) have pos: "0 < cap"
    by (simp split: if_splits)
  define buffer where
    "buffer = take (cap - 1) response @ NUL
                # drop (Suc (length (take (cap - 1) response))) (replicate cap NUL)"
  have eng: "engine_run_script ok response w (CString script) (Timeout options)
               (replicate cap NUL) cap = (ok, buffer)"
    unfolding buffer_def by (rule engine_run_script_buffer [OF pos]) simp
  have nul: "NUL \<in> set buffer"
    by (simp add: buffer_def)
  have "NUL \<notin> set (take (cap - 1) response)"
    using assms(4) by (auto dest: in_set_takeD)
  then have cut: "takeWhile (\<lambda>c. c \<noteq> NUL) buffer = take (cap - 1) response"
    unfolding buffer_def by (rule takeWhile_text_NUL)
  have "Script heap (engine_run_script ok response) w script options
          = Inr (takeWhile (\<lambda>c. c \<noteq> NUL) buffer,
                 if ok then None else Some (ErrorString ''Failed running JavaScript.''))"
    using assms(1-3) eng nul by (rule Script_sentinel)
  with cut show "\<exists>text. Script heap (engine_run_script ok response) w script options
                    = Inr (text, if ok then None
                                 else Some (ErrorString ''Failed running JavaScript.''))
              \<and> text = take (cap - 1) response
              \<and> (cap - 1 < length response \<longrightarrow> length text = cap - 1)"
    by simp
qed

theorem Script_buffer_truncation_witness:
  "Script 65536 (engine_run_script True ''hello'') 3 ''return 1;''
       \<lparr>Timeout = 0, BufferSize = 0\<rparr> = Inr (''hello'', None)
   \<and> Script 65536 (engine_run_script True ''hello'') 3 ''return 1;''
       \<lparr>Timeout = 0, BufferSize = 4\<rparr> = Inr (''hel'', None)"
proof -
  have n: "NUL \<notin> set ''hello''"
    by (simp add: NUL_def)
  have c0: "(8192::nat) = (if BufferSize \<lparr>Timeout = 0, BufferSize = 0\<rparr> = 0 then 8192
                           else BufferSize \<lparr>Timeout = 0, BufferSize = 0\<rparr>)"
    by simp
  have c4: "(4::nat) = (if BufferSize \<lparr>Timeout = 0, BufferSize = 4\<rparr> = 0 then 8192
                        else BufferSize \<lparr>Timeout = 0, BufferSize = 4\<rparr>)"
    by simp
  have a0: "(8192::nat) \<le> maxAlloc" "(8192::nat) \<le> 65536"
    by (simp_all add: maxAlloc_def)
  have a4: "(4::nat) \<le> maxAlloc" "(4::nat) \<le> 65536"
    by (simp_all add: maxAlloc_def)
  from Script_buffer_truncation [OF c0 a0 n, of 3 "''return 1;''" True]
    Script_buffer_truncation [OF c4 a4 n, of 3 "''return 1;''" True]
  show ?thesis
    by simp
qed

text \<open>
  C6: for every call of \<^verbatim>\<open>Script\<close> where the engine reports failure, the call returns the
  non-nil generic error, and with it the content of the buffer up to the sentinel byte as
  the text. The engine is reached, and so can report, only when \<^verbatim>\<open>make\<close> has given the
  buffer: the capacity is within the runtime's limit and the heap's means.
\<close>

theorem Script_engine_failure:
  assumes "cap = (if BufferSize options = 0 then 8192 else BufferSize options)"
    and "cap \<le> maxAlloc" and "cap \<le> heap"
    and "webui_script w (CString script) (Timeout options) (replicate cap NUL) cap
           = (False, buffer)"
    and "NUL \<in> set buffer"
  shows "Script heap webui_script w script options
           = Inr (takeWhile (\<lambda>c. c \<noteq> NUL) buffer,
                  Some (ErrorString ''Failed running JavaScript.''))"
  using Script_sentinel [where webui_script = webui_script and w = w and script = script
      and options = options and cap = cap and heap = heap and ok = False and buffer = buffer,
      OF assms]
  by simp

theorem Script_engine_failure_witness:
  "engine_run_script False ''partial'' 3 (CString ''f()'') 2 (replicate 4 NUL) 4
     = (False, ''par'' @ [NUL])
   \<and> NUL \<in> set (''par'' @ [NUL])
   \<and> Script 65536 (engine_run_script False ''partial'') 3 ''f()''
        \<lparr>Timeout = 2, BufferSize = 4\<rparr>
       = Inr (''par'', Some (ErrorString ''Failed running JavaScript.''))"
proof -
  have e: "engine_run_script False ''partial'' 3 (CString ''f()'')
             (Timeout \<lparr>Timeout = 2, BufferSize = 4\<rparr>) (replicate 4 NUL) 4
           = (False, ''par'' @ [NUL])"
    by (simp add: engine_run_script_def Let_def)
  have n: "NUL \<in> set (''par'' @ [NUL])"
    by simp
  have c: "(4::nat) = (if BufferSize \<lparr>Timeout = 2, BufferSize = 4\<rparr> = 0 then 8192
                       else BufferSize \<lparr>Timeout = 2, BufferSize = 4\<rparr>)"
    by simp
  have a: "(4::nat) \<le> maxAlloc" "(4::nat) \<le> 65536"
    by (simp_all add: maxAlloc_def)
  from Script_engine_failure [where webui_script = "engine_run_script False ''partial''"
      and w = 3 and script = "''f()''" and options = "\<lparr>Timeout = 2, BufferSize = 4\<rparr>"
      and cap = 4 and heap = 65536 and buffer = "''par'' @ [NUL]", OF c a e n] e n
  show ?thesis
    by (simp add: NUL_def)
qed

section \<open>Encoding and decoding text: properties\<close>

lemma GoString_no_NUL: "NUL \<notin> set (GoString p)"
  by (auto simp: GoString_def split: option.splits dest: set_takeWhileD)

lemma GoString_CString_cut: "GoString (CString s) = takeWhile (\<lambda>c. c \<noteq> NUL) s"
  by (induction s) (auto simp: GoString_def CString_def)

lemma takeWhile_no_NUL: "NUL \<notin> set t \<Longrightarrow> takeWhile (\<lambda>c. c \<noteq> NUL) t = t"
  by (induction t) auto

lemma Decode_no_NUL: "NUL \<notin> set (Decode webui_decode x)"
  by (simp add: Decode_def GoString_no_NUL)

text \<open>
  C8, as stated, fails on a string with a control character, the NUL byte: whatever the
  engine's two functions do, \<^verbatim>\<open>Decode(Encode(s))\<close> is not \<open>s\<close> for the three bytes a, NUL, b.
\<close>

theorem Decode_Encode_counterexample:
  "\<not> (\<exists>webui_encode webui_decode.
         Decode webui_decode (Encode webui_encode [CHR ''a'', NUL, CHR ''b''])
           = [CHR ''a'', NUL, CHR ''b''])"
proof
  assume "\<exists>webui_encode webui_decode.
            Decode webui_decode (Encode webui_encode [CHR ''a'', NUL, CHR ''b''])
              = [CHR ''a'', NUL, CHR ''b'']"
  then obtain e d where "Decode d (Encode e [CHR ''a'', NUL, CHR ''b'']) = [CHR ''a'', NUL, CHR ''b'']"
    by blast
  with Decode_no_NUL [of d "Encode e [CHR ''a'', NUL, CHR ''b'']"] show False
    by simp
qed

text \<open>
  C8, amended: with an engine whose decode inverts its encode on texts without a NUL
  byte, \<^verbatim>\<open>Decode(Encode(s))\<close> is \<open>s\<close> cut at its first NUL byte, for every string \<open>s\<close>. So
  \<^verbatim>\<open>Decode(Encode(s)) == s\<close> holds exactly for the strings without a NUL byte, the empty
  string and strings with other control or markup-sensitive characters among them.
\<close>

theorem Decode_Encode_roundtrip:
  assumes "\<forall>t. NUL \<notin> set t \<longrightarrow> NUL \<notin> set (enc t) \<and> dec (enc t) = t"
  shows "Decode (engine_text_function dec) (Encode (engine_text_function enc) s)
           = takeWhile (\<lambda>c. c \<noteq> NUL) s
       \<and> ((Decode (engine_text_function dec) (Encode (engine_text_function enc) s) = s)
            = (NUL \<notin> set s))"
proof -
  let ?t = "takeWhile (\<lambda>c. c \<noteq> NUL) s"
  have t: "NUL \<notin> set ?t"
    by (auto dest: set_takeWhileD)
  with assms have e: "NUL \<notin> set (enc ?t)" and d: "dec (enc ?t) = ?t"
    by blast+
  have "Encode (engine_text_function enc) s = enc ?t"
    by (simp add: Encode_def engine_text_function_def GoString_CString_cut
        takeWhile_no_NUL [OF e])
  then have r: "Decode (engine_text_function dec) (Encode (engine_text_function enc) s) = ?t"
    by (simp add: Decode_def engine_text_function_def GoString_CString_cut
        takeWhile_no_NUL [OF e] d)
  have "(?t = s) = (NUL \<notin> set s)"
    by auto
  with r show ?thesis
    by simp
qed

theorem Decode_Encode_roundtrip_witness:
  "Decode (engine_text_function rev) (Encode (engine_text_function rev) ''<a&b>'') = ''<a&b>''
   \<and> Decode (engine_text_function rev) (Encode (engine_text_function rev) []) = []
   \<and> Decode (engine_text_function rev) (Encode (engine_text_function rev)
        [CHR ''a'', NUL, CHR ''b'']) = ''a''"
proof -
  have h: "\<forall>t. NUL \<notin> set t \<longrightarrow> NUL \<notin> set (rev t) \<and> rev (rev t) = t"
    by simp
  from Decode_Encode_roundtrip [OF h, of "''<a&b>''"] Decode_Encode_roundtrip [OF h, of "[]"]
    Decode_Encode_roundtrip [OF h, of "[CHR ''a'', NUL, CHR ''b'']"]
  show ?thesis
    by (simp add: NUL_def)
qed

section \<open>Typed access to the event payload: properties\<close>

subsection \<open>The fast path of Atoi\<close>









subsection \<open>The slow path of Atoi: ParseUint and ParseInt\<close>














subsection \<open>Atoi against the decimal reading\<close>





subsection \<open>Data.Int and Data.Bool\<close>




end
